theory Spec2Isabelle
  imports Complex_Main "HOL-Library.Sublist"
begin

section \<open>Errors\<close>

text \<open>
  The members of \<^verbatim>\<open>SIOPErrors\<close> that \<^verbatim>\<open>src/rp/Builder.ts\<close> throws, under the names the
  code uses.
\<close>

datatype SIOPErrors =
    BAD_PARAMS
  | NO_NONCE
  | EXPIRED
  | INVALID_AUDIENCE
  | NO_SELFISSUED_ISS
  | NO_JWT
  | VERIFY_BAD_PARAMS
  | SIGNATURE_OBJECT_TYPE_NOT_SET
  | VERIFIABLE_PRESENTATION_VERIFICATION_FUNCTION_MISSING
  | AUTH_REQUEST_EXPECTS_VP
  | AUTH_REQUEST_DOESNT_EXPECT_VP

text \<open>
  A thrown value: \<^verbatim>\<open>new Error(SIOPErrors.X)\<close>, the template
  \<^verbatim>\<open>`${SIOPErrors.X}, got: ${v}`\<close>, \<^verbatim>\<open>Error('literal')\<close>, the TypeError of a property read
  on \<^verbatim>\<open>undefined\<close>, and the rejection of an external capability.
\<close>

datatype error =
    Error SIOPErrors
  | ErrorGot SIOPErrors "string option"
  | ErrorMsg string
  | TypeError
  | Rejected string

text \<open>Sequencing of fallible synchronous steps: the first throw ends the function.\<close>

definition and_then :: "error + 'a \<Rightarrow> ('a \<Rightarrow> error + 'b) \<Rightarrow> error + 'b" where
  "and_then r f = (case r of Inl e \<Rightarrow> Inl e | Inr x \<Rightarrow> f x)"

section \<open>JavaScript truthiness\<close>

text \<open>
  An optional string is falsy when it is \<^verbatim>\<open>undefined\<close> or empty, an optional number
  when it is \<^verbatim>\<open>undefined\<close> or zero. Numbers are exact rationals (\<^verbatim>\<open>Date.now() / 1000\<close> is
  a fraction); floating-point rounding is not modelled.
\<close>

definition truthy :: "string option \<Rightarrow> bool" where
  "truthy s = (case s of None \<Rightarrow> False | Some v \<Rightarrow> v \<noteq> [])"

definition truthy_num :: "rat option \<Rightarrow> bool" where
  "truthy_num n = (case n of None \<Rightarrow> False | Some v \<Rightarrow> v \<noteq> 0)"

text \<open>\<^verbatim>\<open>a || b\<close> where \<^verbatim>\<open>a\<close> is an optional string and \<^verbatim>\<open>b\<close> a string.\<close>

definition or_else :: "string option \<Rightarrow> string \<Rightarrow> string" where
  "or_else a b = (case a of None \<Rightarrow> b | Some v \<Rightarrow> if v \<noteq> [] then v else b)"

text \<open>\<^verbatim>\<open>a < b\<close> where \<^verbatim>\<open>a\<close> may be \<^verbatim>\<open>undefined\<close>: the comparison is then false.\<close>

definition js_less :: "rat option \<Rightarrow> rat \<Rightarrow> bool" where
  "js_less a b = (case a of None \<Rightarrow> False | Some v \<Rightarrow> v < b)"

text \<open>\<^verbatim>\<open>s.includes(t)\<close> on strings.\<close>

fun str_includes :: "string \<Rightarrow> string \<Rightarrow> bool" where
  "str_includes [] t = (t = [])"
| "str_includes (c # cs) t = (prefix t (c # cs) \<or> str_includes cs t)"

section \<open>Builder: supported versions\<close>

text \<open>
  The members of \<^verbatim>\<open>SupportedVersion\<close> are numbers (the code orders them with \<^verbatim>\<open><\<close>); a
  number is falsy when it is \<open>0\<close>.
\<close>

type_synonym SupportedVersion = int

text \<open>
  \<^verbatim>\<open>Builder.supportedVersions\<close> is declared without an initialiser, so it is
  \<^verbatim>\<open>undefined\<close> (\<open>None\<close>) until \<^verbatim>\<open>initSupportedVersions\<close> runs.
\<close>

record Builder =
  supportedVersions :: "SupportedVersion list option"

definition initSupportedVersions :: "Builder \<Rightarrow> Builder" where
  "initSupportedVersions b =
     (if supportedVersions b = None then b\<lparr>supportedVersions := Some []\<rparr> else b)"

definition addSupportedVersion :: "SupportedVersion \<Rightarrow> Builder \<Rightarrow> Builder" where
  "addSupportedVersion supportedVersion b =
     (let b1 = initSupportedVersions b in
      case supportedVersions b1 of
        None \<Rightarrow> b1
      | Some vs \<Rightarrow>
          if supportedVersion \<notin> set vs
          then b1\<lparr>supportedVersions := Some (vs @ [supportedVersion])\<rparr>
          else b1)"

text \<open>The argument of \<^verbatim>\<open>withSupportedVersions\<close>: \<^verbatim>\<open>SupportedVersion[] | SupportedVersion\<close>.\<close>

datatype versions_arg = One SupportedVersion | Many "SupportedVersion list"

text \<open>\<^verbatim>\<open>Array.isArray(supportedVersion) ? supportedVersion : [supportedVersion]\<close>.\<close>

definition versions_of :: "versions_arg \<Rightarrow> SupportedVersion list" where
  "versions_of a = (case a of Many vs \<Rightarrow> vs | One v \<Rightarrow> [v])"

definition withSupportedVersions :: "versions_arg \<Rightarrow> Builder \<Rightarrow> Builder" where
  "withSupportedVersions supportedVersion b =
     foldl (\<lambda>acc version. addSupportedVersion version acc) b (versions_of supportedVersion)"

text \<open>
  \<^verbatim>\<open>getSupportedRequestVersion(requireVersion?)\<close>: the parameter is \<open>None\<close> when the
  caller omits it; only an explicit \<^verbatim>\<open>false\<close> turns the throw off.
\<close>

definition getSupportedRequestVersion ::
  "bool option \<Rightarrow> Builder \<Rightarrow> error + SupportedVersion option" where
  "getSupportedRequestVersion requireVersion b =
     (case supportedVersions b of
        None \<Rightarrow>
          if requireVersion \<noteq> Some False
          then Inl (ErrorMsg ''No supported version supplied/available'')
          else Inr None
      | Some [] \<Rightarrow>
          if requireVersion \<noteq> Some False
          then Inl (ErrorMsg ''No supported version supplied/available'')
          else Inr None
      | Some (v # vs) \<Rightarrow> Inr (Some v))"

text \<open>
  \<^verbatim>\<open>Builder.newInstance(supportedVersion?)\<close>: the constructor adds the version only when
  it is truthy (\<^verbatim>\<open>if (supportedRequestVersion)\<close>), so neither a missing version nor \<open>0\<close>
  is added.
\<close>

definition newInstance :: "SupportedVersion option \<Rightarrow> Builder" where
  "newInstance supportedVersion =
     (case supportedVersion of
        None \<Rightarrow> \<lparr>supportedVersions = None\<rparr>
      | Some v \<Rightarrow>
          if v \<noteq> 0 then addSupportedVersion v \<lparr>supportedVersions = None\<rparr>
          else \<lparr>supportedVersions = None\<rparr>)"

text \<open>A sequence of calls of the two methods on one builder.\<close>

datatype version_call = AddSupportedVersion SupportedVersion | WithSupportedVersions versions_arg

definition apply_call :: "Builder \<Rightarrow> version_call \<Rightarrow> Builder" where
  "apply_call b c =
     (case c of
        AddSupportedVersion v \<Rightarrow> addSupportedVersion v b
      | WithSupportedVersions a \<Rightarrow> withSupportedVersions a b)"

definition apply_calls :: "Builder \<Rightarrow> version_call list \<Rightarrow> Builder" where
  "apply_calls b cs = foldl apply_call b cs"

text \<open>
  What a caller asks for, stated apart from the code above: \<^verbatim>\<open>addSupportedVersion(v)\<close>
  and \<^verbatim>\<open>withSupportedVersions(v)\<close> ask for \<open>v\<close>, \<^verbatim>\<open>withSupportedVersions([v1, ..., vn])\<close>
  asks for \<open>v1\<close> to \<open>vn\<close> in that order, and a builder made with a version asks for that
  version first (a version of \<open>0\<close> counts as none given).
\<close>

fun versions_asked :: "version_call \<Rightarrow> SupportedVersion list" where
  "versions_asked (AddSupportedVersion v) = [v]"
| "versions_asked (WithSupportedVersions (One v)) = [v]"
| "versions_asked (WithSupportedVersions (Many vs)) = vs"

definition requested_versions ::
  "SupportedVersion option \<Rightarrow> version_call list \<Rightarrow> SupportedVersion list" where
  "requested_versions v0 cs =
     (case v0 of None \<Rightarrow> [] | Some v \<Rightarrow> if v = 0 then [] else [v])
     @ concat (map versions_asked cs)"

text \<open>The array \<^verbatim>\<open>supportedVersions\<close> as read, empty while it is unset.\<close>

definition current_versions :: "Builder \<Rightarrow> SupportedVersion list" where
  "current_versions b = (case supportedVersions b of None \<Rightarrow> [] | Some vs \<Rightarrow> vs)"

section \<open>Data of the authentication response\<close>

text \<open>
  Opaque values of external packages are kept as small records or tags; a function
  value (a callback) is an opaque token, since the code only tests whether one is set
  and hands it on.
\<close>

datatype callback = Callback nat

record JWTHeader =
  alg :: string
  kid :: "string option"

datatype VerifiablePresentationTypeFormat = JWT_VP | LDP_VP

datatype PresentationLocation = VP_TOKEN | ID_TOKEN

record Descriptor =
  format :: VerifiablePresentationTypeFormat
  path :: string

record PresentationSubmission =
  submission_id :: string
  definition_id :: "string option"
  descriptor_map :: "Descriptor list"

record VpTokenClaim =
  presentation_submission :: PresentationSubmission

text \<open>
  \<^verbatim>\<open>IdToken\<close>, and the claims of a parsed token (\<^verbatim>\<open>JWTPayload\<close>): every claim the code
  tests for presence is optional.
\<close>

record IdToken =
  iss :: "string option"
  aud :: "string option"
  iat :: "rat option"
  exp_claim :: "rat option"
  sub :: "string option"
  auth_time :: "rat option"
  nonce :: "string option"
  sub_jwk :: "string option"
  vp_token_claim :: "VpTokenClaim option"

type_synonym JWTPayload = IdToken

record IPresentationDefinition =
  pd_id :: "string option"

text \<open>
  \<^verbatim>\<open>PresentationDefinitionWithLocation\<close>. The code filters on \<^verbatim>\<open>a.definition\<close> and
  \<^verbatim>\<open>verifyVPs\<close> passes an entry whose definition may be \<^verbatim>\<open>undefined\<close>, so the field is
  optional here.
\<close>

record PresentationDefinitionWithLocation =
  pdefinition :: "IPresentationDefinition option"
  location :: PresentationLocation

record IPresentation =
  holder :: string
  submission :: "PresentationSubmission option"

record VerifiablePresentationPayload =
  vp_format :: VerifiablePresentationTypeFormat
  presentation :: "IPresentation option"

text \<open>\<^verbatim>\<open>VerifiablePresentationPayload[] | VerifiablePresentationPayload\<close>.\<close>

datatype vps_arg = Single VerifiablePresentationPayload | Array "VerifiablePresentationPayload list"

text \<open>
  Modelled from the spec: the three-valued policies {NEVER, IF_PRESENT, ALWAYS} of
  \<^verbatim>\<open>CheckLinkedDomain\<close> and \<^verbatim>\<open>RevocationVerification\<close>, declared in \<^verbatim>\<open>../types\<close>. Every
  member is a truthy value, so \<^verbatim>\<open>!policy\<close> holds exactly when the policy is unset.
\<close>

datatype CheckLinkedDomain = LD_NEVER | LD_IF_PRESENT | LD_ALWAYS

datatype RevocationVerification = RV_NEVER | RV_IF_PRESENT | RV_ALWAYS

record RevocationOpts =
  revocationVerification :: RevocationVerification
  revocationVerificationCallback :: "callback option"

text \<open>
  \<^verbatim>\<open>InternalVerification | ExternalVerification\<close>, with the fields the code reads. The
  type guards \<^verbatim>\<open>isInternalVerification\<close> and \<^verbatim>\<open>isExternalVerification\<close> of \<^verbatim>\<open>./types\<close> are
  parameters (\<open>RP_capabilities\<close>).
\<close>

record Verification =
  checkLinkedDomain :: "CheckLinkedDomain option"
  resolveOpts :: "string option"
  revocationOpts :: "RevocationOpts option"

record VpTokenOpts =
  presentationDefinition :: "IPresentationDefinition option"

record ClaimOpts =
  vpToken :: "VpTokenOpts option"

record VerifyAuthenticationResponseOpts =
  verification :: "Verification option"
  audience :: "string option"
  verifyCallback :: "callback option"
  presentationVerificationCallback :: "callback option"
  claims :: "ClaimOpts option"

record VerifiedJWT =
  verified_payload :: IdToken
  verified_signer :: string
  verified_didResolutionResult :: string

record VerifiedAuthenticationResponseWithJWT =
  signer :: string
  didResolutionResult :: string
  response_jwt :: string
  response_verifyOpts :: "VerifyAuthenticationResponseOpts option"
  issuer :: string
  response_payload :: IdToken

record AuthenticationResponsePayload =
  vp_token :: "vps_arg option"
  id_token :: "string option"

text \<open>
  Modelled from the spec: \<^verbatim>\<open>SignatureMaterial\<close> is a tagged variant over internal,
  external, supplied and none; the type guards \<^verbatim>\<open>isInternalSignature\<close>,
  \<^verbatim>\<open>isExternalSignature\<close> and \<^verbatim>\<open>isSuppliedSignature\<close> of \<^verbatim>\<open>./types\<close> test the tag.
  An internal signature carries \<^verbatim>\<open>hexPrivateKey\<close>, \<^verbatim>\<open>did\<close> and the optional \<^verbatim>\<open>kid\<close>.
\<close>

datatype SignatureType =
    InternalSignature string string "string option"
  | ExternalSignature string
  | SuppliedSignature
  | NoSignature

definition isInternalSignature :: "SignatureType \<Rightarrow> bool" where
  "isInternalSignature s = (case s of InternalSignature _ _ _ \<Rightarrow> True | _ \<Rightarrow> False)"

definition isExternalSignature :: "SignatureType \<Rightarrow> bool" where
  "isExternalSignature s = (case s of ExternalSignature _ \<Rightarrow> True | _ \<Rightarrow> False)"

definition isSuppliedSignature :: "SignatureType \<Rightarrow> bool" where
  "isSuppliedSignature s = (case s of SuppliedSignature \<Rightarrow> True | _ \<Rightarrow> False)"

record VerifiablePresentationResponseOpts =
  vp_location :: PresentationLocation
  vp_presentation :: "IPresentation option"

record AuthenticationResponseOpts =
  signatureType :: "SignatureType option"
  did :: "string option"
  state :: "string option"
  opts_nonce :: "string option"
  expiresIn :: "rat option"
  vp :: "VerifiablePresentationResponseOpts list option"

record Registration =
  subject_syntax_types_supported :: "string list option"

record AuthenticationRequestPayload =
  registration :: "Registration option"
  request_state :: "string option"
  request_nonce :: "string option"
  redirect_uri :: "string option"

record VerifiedAuthenticationRequestWithJWT =
  request_jwt :: "string option"
  request_payload :: AuthenticationRequestPayload
  presentationDefinitions :: "PresentationDefinitionWithLocation list option"

section \<open>Asynchronous functions and the calls they make\<close>

text \<open>
  The functions imported from \<^verbatim>\<open>./functions\<close> and \<^verbatim>\<open>./PresentationExchange\<close> are not part
  of the sources; they are parameters (\<open>RP_capabilities\<close>, \<open>OP_capabilities\<close>) that give
  the outcome of each call. A call that is made is recorded, so that the order of the
  stages can be stated.
\<close>

datatype call =
    Call_parseJWT string
  | Call_getResolver "string option"
  | Call_verifyDidJWT string "string option"
  | Call_getIssuerDidFromPayload "JWTPayload option"
  | Call_validateLinkedDomainWithDid string "callback option" CheckLinkedDomain
  | Call_assertValidPresentationDefinitionWithLocations
      "PresentationDefinitionWithLocation list option"
  | Call_validatePayloadsAgainstDefinitions
      "PresentationDefinitionWithLocation list" "VerifiablePresentationPayload list"
      "PresentationSubmission option" "callback option"
  | Call_verifyRevocation "VerifiablePresentationPayload option" "callback option"
      RevocationVerification

text \<open>
  The settled promise of an \<^verbatim>\<open>async\<close> function: how it settles (\<open>Inl\<close> is a rejection)
  and the calls made on the way.
\<close>

type_synonym 'a promise = "(error + 'a) \<times> call list"

definition resolved :: "'a \<Rightarrow> 'a promise" where
  "resolved x = (Inr x, [])"

definition rejected :: "error \<Rightarrow> 'a promise" where
  "rejected e = (Inl e, [])"

text \<open>A synchronous step inside an \<^verbatim>\<open>async\<close> function: a throw rejects the promise.\<close>

definition sync :: "error + 'a \<Rightarrow> 'a promise" where
  "sync r = (r, [])"

definition invoke :: "call \<Rightarrow> error + 'a \<Rightarrow> 'a promise" where
  "invoke c r = (r, [c])"

text \<open>\<^verbatim>\<open>await m\<close> followed by the rest of the function: a rejection of \<open>m\<close> ends it.\<close>

definition await :: "'a promise \<Rightarrow> ('a \<Rightarrow> 'b promise) \<Rightarrow> 'b promise" where
  "await m f =
     (case m of
        (Inl e, t) \<Rightarrow> (Inl e, t)
      | (Inr x, t) \<Rightarrow> (case f x of (r, t') \<Rightarrow> (r, t @ t')))"

text \<open>
  \<^verbatim>\<open>xs.forEach(async (p) => ...)\<close>: \<^verbatim>\<open>forEach\<close> calls the callback on every element and
  drops what it returns. Each call of the \<^verbatim>\<open>async\<close> callback runs up to its first
  \<^verbatim>\<open>await\<close>, so the calls it makes are made, but the promise it returns is awaited by
  nobody: neither its value nor its rejection reaches the caller of \<^verbatim>\<open>forEach\<close>.
\<close>

definition forEach_async :: "('a \<Rightarrow> 'b promise) \<Rightarrow> 'a list \<Rightarrow> unit promise" where
  "forEach_async f xs = (Inr (), concat (map (\<lambda>x. snd (f x)) xs))"

record RP_capabilities =
  SELF_ISSUED_V2 :: string
  isInternalVerification :: "Verification \<Rightarrow> bool"
  isExternalVerification :: "Verification \<Rightarrow> bool"
  parseJWT :: "string \<Rightarrow> error + (JWTHeader option \<times> JWTPayload option)"
  getResolver :: "string option \<Rightarrow> error + string"
  verifyDidJWT :: "string \<Rightarrow> string \<Rightarrow> string option \<Rightarrow> error + VerifiedJWT"
  getIssuerDidFromPayload :: "JWTPayload option \<Rightarrow> error + string"
  validateLinkedDomainWithDid ::
    "string \<Rightarrow> callback option \<Rightarrow> CheckLinkedDomain \<Rightarrow> error + unit"
  assertValidPresentationDefinitionWithLocations ::
    "PresentationDefinitionWithLocation list option \<Rightarrow> error + unit"
  validatePayloadsAgainstDefinitions ::
    "PresentationDefinitionWithLocation list \<Rightarrow> VerifiablePresentationPayload list \<Rightarrow>
     PresentationSubmission option \<Rightarrow> callback option \<Rightarrow> error + unit"
  verifyRevocation ::
    "VerifiablePresentationPayload option \<Rightarrow> callback option \<Rightarrow> RevocationVerification \<Rightarrow>
     error + unit"

record OP_capabilities =
  OP_SELF_ISSUED_V2 :: string
  SubjectSyntax_DID :: string
  SubjectSyntax_JWK_THUMBPRINT :: string
  getState :: "string option \<Rightarrow> string"
  getNonce :: "string \<Rightarrow> string"
  uuidv4 :: string
  Date_now :: "nat \<Rightarrow> int"
  isString :: "VerifiablePresentationResponseOpts \<Rightarrow> bool"
  getThumbprint :: "string \<Rightarrow> string option \<Rightarrow> error + string"
  getPublicJWKFromHexPrivateKey :: "string \<Rightarrow> string \<Rightarrow> string option \<Rightarrow> error + string"

section \<open>Response verification\<close>

record assertValidResponseJWT_opts =
  arg_header :: "JWTHeader option"
  arg_payload :: "JWTPayload option"
  arg_verPayload :: "IdToken option"
  arg_audience :: "string option"

text \<open>\<^verbatim>\<open>assertValidResponseJWT\<close>; \<open>now\<close> is the value of \<^verbatim>\<open>Date.now()\<close>, in milliseconds.\<close>

definition assertValidResponseJWT ::
  "RP_capabilities \<Rightarrow> int \<Rightarrow> assertValidResponseJWT_opts \<Rightarrow> error + unit" where
  "assertValidResponseJWT caps now opts =
     (if arg_header opts = None then Inl (Error BAD_PARAMS)
      else
        and_then
          (case arg_payload opts of
             None \<Rightarrow> Inr ()
           | Some p \<Rightarrow>
               if iss p \<noteq> Some (SELF_ISSUED_V2 caps)
               then Inl (ErrorGot NO_SELFISSUED_ISS (iss p))
               else Inr ())
          (\<lambda>_.
            case arg_verPayload opts of
              None \<Rightarrow> Inr ()
            | Some verPayload \<Rightarrow>
                and_then
                  (if \<not> truthy (nonce verPayload) then Inl (Error NO_NONCE)
                   else if \<not> truthy_num (exp_claim verPayload)
                           \<or> js_less (exp_claim verPayload) (of_int now / 1000)
                   then Inl (Error EXPIRED)
                   else Inr ())
                  (\<lambda>_.
                    if (truthy (aud verPayload) \<and> \<not> truthy (arg_audience opts))
                       \<or> (\<not> truthy (aud verPayload) \<and> truthy (arg_audience opts))
                    then Inl (Error BAD_PARAMS)
                    else if truthy (arg_audience opts) \<and> arg_audience opts \<noteq> aud verPayload
                    then Inl (Error INVALID_AUDIENCE)
                    else Inr ())))"

definition assertValidVerifyOpts ::
  "RP_capabilities \<Rightarrow> VerifyAuthenticationResponseOpts option \<Rightarrow> error + unit" where
  "assertValidVerifyOpts caps opts =
     (case opts of
        None \<Rightarrow> Inl (Error VERIFY_BAD_PARAMS)
      | Some opts' \<Rightarrow>
          (case verification opts' of
             None \<Rightarrow> Inl (Error VERIFY_BAD_PARAMS)
           | Some v \<Rightarrow>
               if \<not> isExternalVerification caps v \<and> \<not> isInternalVerification caps v
               then Inl (Error VERIFY_BAD_PARAMS)
               else Inr ()))"

text \<open>
  Property reads on values that may be \<^verbatim>\<open>undefined\<close>: \<^verbatim>\<open>verifyOpts.x\<close> and
  \<^verbatim>\<open>verifyOpts.verification.x\<close> throw a TypeError when the object read from is missing.
\<close>

definition read_opts ::
  "VerifyAuthenticationResponseOpts option \<Rightarrow> error + VerifyAuthenticationResponseOpts" where
  "read_opts opts = (case opts of None \<Rightarrow> Inl TypeError | Some opts' \<Rightarrow> Inr opts')"

definition read_verification ::
  "VerifyAuthenticationResponseOpts option \<Rightarrow> error + Verification" where
  "read_verification opts =
     and_then (read_opts opts)
       (\<lambda>opts'. case verification opts' of None \<Rightarrow> Inl TypeError | Some v \<Rightarrow> Inr v)"

text \<open>\<^verbatim>\<open>AuthenticationResponse.verifyJWT\<close>.\<close>

definition verifyJWT ::
  "RP_capabilities \<Rightarrow> int \<Rightarrow> string \<Rightarrow> VerifyAuthenticationResponseOpts option \<Rightarrow>
   VerifiedAuthenticationResponseWithJWT promise" where
  "verifyJWT caps now jwt verifyOpts =
     (if jwt = [] then rejected (Error NO_JWT)
      else
        await (sync (assertValidVerifyOpts caps verifyOpts)) (\<lambda>_.
        await (invoke (Call_parseJWT jwt) (parseJWT caps jwt)) (\<lambda>(header, payload).
        await (sync (assertValidResponseJWT caps now
                 \<lparr>arg_header = header, arg_payload = payload,
                  arg_verPayload = None, arg_audience = None\<rparr>)) (\<lambda>_.
        await (sync (read_verification verifyOpts)) (\<lambda>v.
        await (sync (read_opts verifyOpts)) (\<lambda>opts.
        await (invoke (Call_getResolver (resolveOpts v)) (getResolver caps (resolveOpts v)))
          (\<lambda>resolver.
        await (invoke (Call_verifyDidJWT jwt (audience opts))
                 (verifyDidJWT caps jwt resolver (audience opts))) (\<lambda>verifiedJWT.
        await (invoke (Call_getIssuerDidFromPayload payload)
                 (getIssuerDidFromPayload caps payload)) (\<lambda>issuerDid.
        await
          (case checkLinkedDomain v of
             Some policy \<Rightarrow>
               if policy \<noteq> LD_NEVER
               then invoke
                      (Call_validateLinkedDomainWithDid issuerDid (verifyCallback opts) policy)
                      (validateLinkedDomainWithDid caps issuerDid (verifyCallback opts) policy)
               else resolved ()
           | None \<Rightarrow>
               invoke
                 (Call_validateLinkedDomainWithDid issuerDid (verifyCallback opts) LD_IF_PRESENT)
                 (validateLinkedDomainWithDid caps issuerDid (verifyCallback opts)
                    LD_IF_PRESENT)) (\<lambda>_.
        await (sync (assertValidResponseJWT caps now
                 \<lparr>arg_header = header, arg_payload = None,
                  arg_verPayload = Some (verified_payload verifiedJWT),
                  arg_audience = audience opts\<rparr>)) (\<lambda>_.
        if presentationVerificationCallback opts = None
        then rejected (Error VERIFIABLE_PRESENTATION_VERIFICATION_FUNCTION_MISSING)
        else resolved
               \<lparr>signer = verified_signer verifiedJWT,
                didResolutionResult = verified_didResolutionResult verifiedJWT,
                response_jwt = jwt,
                response_verifyOpts = verifyOpts,
                issuer = issuerDid,
                response_payload = verified_payload verifiedJWT\<rparr>)))))))))))"

section \<open>Presentation exchange and revocation\<close>

record assertValidVerifiablePresentations_args =
  arg_definitions :: "PresentationDefinitionWithLocation list option"
  arg_vps :: "vps_arg option"
  arg_presentationVerificationCallback :: "callback option"

text \<open>The first test of \<^verbatim>\<open>assertValidVerifiablePresentations\<close>: nothing to validate.\<close>

definition nothing_exchanged :: "assertValidVerifiablePresentations_args \<Rightarrow> bool" where
  "nothing_exchanged args =
     ((case arg_definitions args of
         None \<Rightarrow> True
       | Some ds \<Rightarrow> length (filter (\<lambda>a. pdefinition a \<noteq> None) ds) = 0)
      \<and>
      (case arg_vps args of
         None \<Rightarrow> True
       | Some (Array ps) \<Rightarrow> length (filter (\<lambda>x. presentation x \<noteq> None) ps) = 0
       | Some (Single p) \<Rightarrow> False))"

text \<open>\<^verbatim>\<open>x.presentation?.presentation_submission\<close>, kept when truthy.\<close>

definition submission_of :: "VerifiablePresentationPayload \<Rightarrow> PresentationSubmission option" where
  "submission_of x = (case presentation x of None \<Rightarrow> None | Some p \<Rightarrow> submission p)"

text \<open>The local \<^verbatim>\<open>presentationPayloads\<close> and \<^verbatim>\<open>presentationSubmission\<close> after the pushes.\<close>

definition collect_payloads ::
  "vps_arg option \<Rightarrow> VerifiablePresentationPayload list \<times> PresentationSubmission option" where
  "collect_payloads vps =
     (case vps of
        Some (Array (x # xs)) \<Rightarrow> (x # xs, submission_of x)
      | Some (Array []) \<Rightarrow> ([], None)
      | Some (Single x) \<Rightarrow> ([x], submission_of x)
      | None \<Rightarrow> ([], None))"

text \<open>\<^verbatim>\<open>args.definitions.length\<close>, read only where \<^verbatim>\<open>args.definitions\<close> is set.\<close>

definition definitions_length :: "PresentationDefinitionWithLocation list option \<Rightarrow> nat" where
  "definitions_length ds = (case ds of None \<Rightarrow> 0 | Some l \<Rightarrow> length l)"

text \<open>
  \<^verbatim>\<open>assertValidVerifiablePresentations\<close>. In the second test of the chain,
  \<^verbatim>\<open>(presentationPayloads || presentationPayloads.length > 0)\<close> is always true: the local
  is an array, and an array is truthy.
\<close>

definition assertValidVerifiablePresentations ::
  "RP_capabilities \<Rightarrow> assertValidVerifiablePresentations_args \<Rightarrow> unit promise" where
  "assertValidVerifiablePresentations caps args =
     (if nothing_exchanged args then resolved ()
      else
        await (invoke
                 (Call_assertValidPresentationDefinitionWithLocations (arg_definitions args))
                 (assertValidPresentationDefinitionWithLocations caps (arg_definitions args)))
          (\<lambda>_.
        case collect_payloads (arg_vps args) of
          (presentationPayloads, presentationSubmission) \<Rightarrow>
            if arg_definitions args \<noteq> None \<and> definitions_length (arg_definitions args) \<noteq> 0
               \<and> length presentationPayloads = 0
            then rejected (Error AUTH_REQUEST_EXPECTS_VP)
            else if arg_definitions args = None \<or> definitions_length (arg_definitions args) = 0
            then rejected (Error AUTH_REQUEST_DOESNT_EXPECT_VP)
            else if definitions_length (arg_definitions args) \<noteq> length presentationPayloads
            then rejected (Error AUTH_REQUEST_EXPECTS_VP)
            else
              (case arg_definitions args of
                 None \<Rightarrow> resolved ()
               | Some ds \<Rightarrow>
                   invoke
                     (Call_validatePayloadsAgainstDefinitions ds presentationPayloads
                        presentationSubmission (arg_presentationVerificationCallback args))
                     (validatePayloadsAgainstDefinitions caps ds presentationPayloads
                        presentationSubmission (arg_presentationVerificationCallback args)))))"

text \<open>
  \<^verbatim>\<open>verifyOpts?.claims.vpToken?.presentationDefinition\<close>: the first \<^verbatim>\<open>?.\<close> ends the whole
  chain when \<^verbatim>\<open>verifyOpts\<close> is missing; a missing \<^verbatim>\<open>claims\<close> is read from and throws.
\<close>

definition read_presentationDefinition ::
  "VerifyAuthenticationResponseOpts option \<Rightarrow> error + IPresentationDefinition option" where
  "read_presentationDefinition verifyOpts =
     (case verifyOpts of
        None \<Rightarrow> Inr None
      | Some opts \<Rightarrow>
          (case claims opts of
             None \<Rightarrow> Inl TypeError
           | Some c \<Rightarrow>
               (case vpToken c of
                  None \<Rightarrow> Inr None
                | Some t \<Rightarrow> Inr (presentationDefinition t))))"

text \<open>\<^verbatim>\<open>verifyOpts?.presentationVerificationCallback\<close>.\<close>

definition read_presentationVerificationCallback ::
  "VerifyAuthenticationResponseOpts option \<Rightarrow> callback option" where
  "read_presentationVerificationCallback verifyOpts =
     (case verifyOpts of None \<Rightarrow> None | Some opts \<Rightarrow> presentationVerificationCallback opts)"

text \<open>\<^verbatim>\<open>verifyOpts.verification.revocationOpts.revocationVerificationCallback\<close>.\<close>

definition read_revocationVerificationCallback :: "Verification \<Rightarrow> error + callback option" where
  "read_revocationVerificationCallback v =
     (case revocationOpts v of
        None \<Rightarrow> Inl TypeError
      | Some ro \<Rightarrow> Inr (revocationVerificationCallback ro))"

text \<open>\<^verbatim>\<open>AuthenticationResponse.verifyVPs\<close>.\<close>

definition verifyVPs ::
  "RP_capabilities \<Rightarrow> AuthenticationResponsePayload \<Rightarrow>
   VerifyAuthenticationResponseOpts option \<Rightarrow> unit promise" where
  "verifyVPs caps payload verifyOpts =
     await (sync (read_presentationDefinition verifyOpts)) (\<lambda>pd.
     await (assertValidVerifiablePresentations caps
              \<lparr>arg_definitions = Some [\<lparr>pdefinition = pd, location = VP_TOKEN\<rparr>],
               arg_vps = vp_token payload,
               arg_presentationVerificationCallback =
                 read_presentationVerificationCallback verifyOpts\<rparr>) (\<lambda>_.
     await (sync (read_verification verifyOpts)) (\<lambda>v.
     let policy =
           (case revocationOpts v of
              Some ro \<Rightarrow> revocationVerification ro
            | None \<Rightarrow> RV_IF_PRESENT)
     in
       if policy \<noteq> RV_NEVER then
         (case vp_token payload of
            Some (Array ps) \<Rightarrow>
              forEach_async
                (\<lambda>p. await (sync (read_revocationVerificationCallback v)) (\<lambda>cb.
                       invoke (Call_verifyRevocation (Some p) cb policy)
                         (verifyRevocation caps (Some p) cb policy)))
                ps
          | Some (Single p) \<Rightarrow>
              await (sync (read_revocationVerificationCallback v)) (\<lambda>cb.
                invoke (Call_verifyRevocation (Some p) cb policy)
                  (verifyRevocation caps (Some p) cb policy))
          | None \<Rightarrow>
              await (sync (read_revocationVerificationCallback v)) (\<lambda>cb.
                invoke (Call_verifyRevocation None cb policy)
                  (verifyRevocation caps None cb policy)))
       else resolved ())))"

section \<open>Building the identity token\<close>

definition assertValidResponseOpts :: "AuthenticationResponseOpts option \<Rightarrow> error + unit" where
  "assertValidResponseOpts opts =
     (case opts of
        None \<Rightarrow> Inl (Error BAD_PARAMS)
      | Some opts' \<Rightarrow>
          (case signatureType opts' of
             None \<Rightarrow> Inl (Error BAD_PARAMS)
           | Some s \<Rightarrow>
               if \<not> truthy (did opts') then Inl (Error BAD_PARAMS)
               else if \<not> (isInternalSignature s \<or> isExternalSignature s \<or> isSuppliedSignature s)
               then Inl (Error SIGNATURE_OBJECT_TYPE_NOT_SET)
               else Inr ()))"

text \<open>
  \<^verbatim>\<open>createThumbprintAndJWK\<close>: the pair \<^verbatim>\<open>{ thumbprint, subJwk }\<close>, both \<^verbatim>\<open>undefined\<close> for a
  supplied signature.
\<close>

definition createThumbprintAndJWK ::
  "OP_capabilities \<Rightarrow> AuthenticationResponseOpts \<Rightarrow> error + (string option \<times> string option)" where
  "createThumbprintAndJWK caps resOpts =
     (case signatureType resOpts of
        None \<Rightarrow> Inl TypeError
      | Some (InternalSignature hex sdid skid) \<Rightarrow>
          and_then (getThumbprint caps hex (did resOpts)) (\<lambda>thumbprint.
          and_then (getPublicJWKFromHexPrivateKey caps hex (or_else skid (sdid @ ''#key-1''))
                      (did resOpts)) (\<lambda>subJwk.
          Inr (Some thumbprint, Some subJwk)))
      | Some SuppliedSignature \<Rightarrow> Inr (None, None)
      | Some _ \<Rightarrow> Inl (Error SIGNATURE_OBJECT_TYPE_NOT_SET))"

text \<open>
  \<^verbatim>\<open>verifiedJwt.payload.registration?.subject_syntax_types_supported?.filter(...)\<close>:
  \<^verbatim>\<open>undefined\<close> when the registration or its list is missing.
\<close>

definition supportedDidMethods_of ::
  "OP_capabilities \<Rightarrow> AuthenticationRequestPayload \<Rightarrow> string list option" where
  "supportedDidMethods_of caps p =
     (case registration p of
        None \<Rightarrow> None
      | Some reg \<Rightarrow>
          (case subject_syntax_types_supported reg of
             None \<Rightarrow> None
           | Some ssts \<Rightarrow>
               Some (filter (\<lambda>sst. str_includes sst (SubjectSyntax_DID caps)) ssts)))"

text \<open>\<^verbatim>\<open>verifiedJwt.presentationDefinitions[0]?.definition.id || undefined\<close>.\<close>

definition first_definition_id ::
  "PresentationDefinitionWithLocation list option \<Rightarrow> error + string option" where
  "first_definition_id ds =
     (case ds of
        None \<Rightarrow> Inl TypeError
      | Some [] \<Rightarrow> Inr None
      | Some (d # _) \<Rightarrow>
          (case pdefinition d of
             None \<Rightarrow> Inl TypeError
           | Some pd \<Rightarrow> Inr (if truthy (pd_id pd) then pd_id pd else None)))"

text \<open>\<^verbatim>\<open>resOpts.vp && ObjectUtils.isString(resOpts.vp[0]) ? JWT_VP : LDP_VP\<close>.\<close>

definition descriptor_format ::
  "OP_capabilities \<Rightarrow> AuthenticationResponseOpts \<Rightarrow> VerifiablePresentationTypeFormat" where
  "descriptor_format caps resOpts =
     (case vp resOpts of
        Some (x # _) \<Rightarrow> if isString caps x then JWT_VP else LDP_VP
      | _ \<Rightarrow> LDP_VP)"

text \<open>\<^verbatim>\<open>resOpts.expiresIn || 600\<close>.\<close>

definition expiresIn_or_default :: "rat option \<Rightarrow> rat" where
  "expiresIn_or_default n = (case n of None \<Rightarrow> 600 | Some v \<Rightarrow> if v \<noteq> 0 then v else 600)"

text \<open>
  \<^verbatim>\<open>createSIOPIDToken\<close>. \<open>Date_now caps k\<close> is the value of the \<open>k\<close>-th \<^verbatim>\<open>Date.now()\<close>
  of the call.
\<close>

definition createSIOPIDToken ::
  "OP_capabilities \<Rightarrow> VerifiedAuthenticationRequestWithJWT option \<Rightarrow>
   AuthenticationResponseOpts option \<Rightarrow> error + IdToken" where
  "createSIOPIDToken caps verifiedJwt resOpts =
     and_then (assertValidResponseOpts resOpts) (\<lambda>_.
     case verifiedJwt of
       None \<Rightarrow> Inl (Error VERIFY_BAD_PARAMS)
     | Some vj \<Rightarrow>
         if \<not> truthy (request_jwt vj) then Inl (Error VERIFY_BAD_PARAMS)
         else
           (case resOpts of
              None \<Rightarrow> Inl TypeError
            | Some ro \<Rightarrow>
                let supportedDidMethods = supportedDidMethods_of caps (request_payload vj);
                    state_value =
                      or_else (state ro) (getState caps (request_state (request_payload vj)));
                    nonce_value =
                      or_else (request_nonce (request_payload vj))
                        (or_else (opts_nonce ro) (getNonce caps state_value))
                in
                  and_then (first_definition_id (presentationDefinitions vj)) (\<lambda>def_id.
                  let idToken =
                        \<lparr>iss = Some (OP_SELF_ISSUED_V2 caps),
                         aud = redirect_uri (request_payload vj),
                         iat = Some (of_int (Date_now caps 0) / 1000),
                         exp_claim =
                           Some (of_int (Date_now caps 1) / 1000
                                 + expiresIn_or_default (expiresIn ro)),
                         sub = did ro,
                         auth_time = Some (of_int (Date_now caps 2) / 1000),
                         nonce = Some nonce_value,
                         sub_jwk = None,
                         vp_token_claim =
                           Some \<lparr>presentation_submission =
                                   \<lparr>submission_id = uuidv4 caps,
                                    definition_id = def_id,
                                    descriptor_map =
                                      [\<lparr>format = descriptor_format caps ro,
                                        path = ''$''\<rparr>]\<rparr>\<rparr>\<rparr>
                  in
                    (case supportedDidMethods of
                       None \<Rightarrow> Inl TypeError
                     | Some methods \<Rightarrow>
                         if SubjectSyntax_JWK_THUMBPRINT caps \<in> set methods
                            \<and> \<not> truthy (did ro)
                         then
                           and_then (createThumbprintAndJWK caps ro) (\<lambda>(thumbprint, subJwk).
                           Inr (idToken\<lparr>sub_jwk := subJwk, sub := thumbprint\<rparr>))
                         else Inr idToken))))"

section \<open>Concrete scenarios\<close>

text \<open>
  Values on which the properties below are evaluated: a token's header and claims, the
  outcome each capability gives, the options of a verifier and of a holder.
\<close>

definition example_header :: JWTHeader where
  "example_header = \<lparr>alg = ''ES256K'', kid = Some ''did:example:holder#key-1''\<rparr>"

definition example_claims ::
  "string option \<Rightarrow> string option \<Rightarrow> rat option \<Rightarrow> string option \<Rightarrow> IdToken" where
  "example_claims i n e a =
     \<lparr>iss = i, aud = a, iat = Some 1000, exp_claim = e, sub = Some ''did:example:holder'',
      auth_time = Some 1000, nonce = n, sub_jwk = None, vp_token_claim = None\<rparr>"

definition example_verified :: "IdToken \<Rightarrow> VerifiedJWT" where
  "example_verified c =
     \<lparr>verified_payload = c, verified_signer = ''did:example:holder#key-1'',
      verified_didResolutionResult = ''did:example:holder''\<rparr>"

definition example_caps ::
  "JWTPayload \<Rightarrow> error + VerifiedJWT \<Rightarrow> error + unit \<Rightarrow> error + unit \<Rightarrow> RP_capabilities" where
  "example_caps parsed verified linked revoked =
     \<lparr>SELF_ISSUED_V2 = ''https://self-issued.me/v2'',
      isInternalVerification = (\<lambda>_. True),
      isExternalVerification = (\<lambda>_. False),
      parseJWT = (\<lambda>_. Inr (Some example_header, Some parsed)),
      getResolver = (\<lambda>_. Inr ''resolver''),
      verifyDidJWT = (\<lambda>_ _ _. verified),
      getIssuerDidFromPayload = (\<lambda>_. Inr ''did:example:holder''),
      validateLinkedDomainWithDid = (\<lambda>_ _ _. linked),
      assertValidPresentationDefinitionWithLocations = (\<lambda>_. Inr ()),
      validatePayloadsAgainstDefinitions = (\<lambda>_ _ _ _. Inr ()),
      verifyRevocation = (\<lambda>_ _ _. revoked)\<rparr>"

definition example_verifyOpts ::
  "CheckLinkedDomain option \<Rightarrow> string option \<Rightarrow> callback option \<Rightarrow> RevocationOpts option \<Rightarrow>
   VerifyAuthenticationResponseOpts" where
  "example_verifyOpts ld a cb ro =
     \<lparr>verification =
        Some \<lparr>checkLinkedDomain = ld, resolveOpts = None, revocationOpts = ro\<rparr>,
      audience = a, verifyCallback = None, presentationVerificationCallback = cb,
      claims = Some \<lparr>vpToken = Some \<lparr>presentationDefinition = Some \<lparr>pd_id = Some ''pd-1''\<rparr>\<rparr>\<rparr>\<rparr>"

definition example_vp :: VerifiablePresentationPayload where
  "example_vp =
     \<lparr>vp_format = LDP_VP,
      presentation = Some \<lparr>holder = ''did:example:holder'', submission = None\<rparr>\<rparr>"

definition example_definition :: PresentationDefinitionWithLocation where
  "example_definition = \<lparr>pdefinition = Some \<lparr>pd_id = Some ''pd-1''\<rparr>, location = VP_TOKEN\<rparr>"


definition example_OP_caps :: OP_capabilities where
  "example_OP_caps =
     \<lparr>OP_SELF_ISSUED_V2 = ''https://self-issued.me/v2'',
      SubjectSyntax_DID = ''did'',
      SubjectSyntax_JWK_THUMBPRINT = ''urn:ietf:params:oauth:jwk-thumbprint'',
      getState = (\<lambda>s. or_else s ''fresh-state''),
      getNonce = (\<lambda>s. ''nonce-of-'' @ s),
      uuidv4 = ''0b0e5c1e'',
      Date_now = (\<lambda>_. 1000000),
      isString = (\<lambda>_. False),
      getThumbprint = (\<lambda>_ _. Inr ''thumbprint''),
      getPublicJWKFromHexPrivateKey = (\<lambda>_ _ _. Inr ''jwk'')\<rparr>"

definition example_request ::
  "string list option \<Rightarrow> string option \<Rightarrow> VerifiedAuthenticationRequestWithJWT" where
  "example_request ssts n =
     \<lparr>request_jwt = Some ''eyJhbGciOiJFUzI1NksifQ.e30.c2ln'',
      request_payload =
        \<lparr>registration = Some \<lparr>subject_syntax_types_supported = ssts\<rparr>,
         request_state = Some ''s-1'', request_nonce = n,
         redirect_uri = Some ''https://rp.example/cb''\<rparr>,
      presentationDefinitions = Some []\<rparr>"

definition example_resOpts :: "string option \<Rightarrow> string option \<Rightarrow> AuthenticationResponseOpts" where
  "example_resOpts d n =
     \<lparr>signatureType = Some (InternalSignature ''0a1b2c'' ''did:example:holder'' None),
      did = d, state = None, opts_nonce = n, expiresIn = None, vp = None\<rparr>"

section \<open>Properties: the supported versions of a builder\<close>

lemma current_versions_add:
  "current_versions (addSupportedVersion v b) =
     (if v \<in> set (current_versions b) then current_versions b else current_versions b @ [v])"
  by (simp add: current_versions_def addSupportedVersion_def initSupportedVersions_def Let_def
           split: option.splits)

lemma add_all_distinct:
  "distinct (current_versions b) \<Longrightarrow>
   distinct (current_versions (foldl (\<lambda>acc x. addSupportedVersion x acc) b xs))"
  by (induction xs arbitrary: b) (simp_all add: current_versions_add)

lemma add_all_keeps_head:
  "current_versions b \<noteq> [] \<Longrightarrow>
   current_versions (foldl (\<lambda>acc x. addSupportedVersion x acc) b xs) \<noteq> [] \<and>
   hd (current_versions (foldl (\<lambda>acc x. addSupportedVersion x acc) b xs)) = hd (current_versions b)"
  by (induction xs arbitrary: b) (simp_all add: current_versions_add)

lemma add_all_first:
  assumes "current_versions b = []"
  shows "\<exists>rest. current_versions (foldl (\<lambda>acc x. addSupportedVersion x acc) b (x # xs)) = x # rest"
proof -
  have c: "current_versions (addSupportedVersion x b) = [x]"
    by (simp add: current_versions_add assms)
  from add_all_keeps_head[of "addSupportedVersion x b" xs] c
  have "current_versions (foldl (\<lambda>acc x. addSupportedVersion x acc) (addSupportedVersion x b) xs) \<noteq> []"
    and "hd (current_versions (foldl (\<lambda>acc x. addSupportedVersion x acc) (addSupportedVersion x b) xs)) = x"
    by simp_all
  then show ?thesis
    by (cases "current_versions (foldl (\<lambda>acc x. addSupportedVersion x acc) (addSupportedVersion x b) xs)")
       simp_all
qed

lemma apply_call_fold:
  "apply_call b c = foldl (\<lambda>acc x. addSupportedVersion x acc) b (versions_asked c)"
proof (cases c)
  case (AddSupportedVersion v)
  then show ?thesis by (simp add: apply_call_def)
next
  case (WithSupportedVersions a)
  then show ?thesis
    by (cases a) (simp_all add: apply_call_def withSupportedVersions_def versions_of_def)
qed

lemma apply_calls_fold:
  "apply_calls b cs =
     foldl (\<lambda>acc x. addSupportedVersion x acc) b (concat (map versions_asked cs))"
  unfolding apply_calls_def
  by (induction cs arbitrary: b) (simp_all add: apply_call_fold)

lemma newInstance_fold:
  "apply_calls (newInstance v0) cs =
     foldl (\<lambda>acc x. addSupportedVersion x acc) \<lparr>supportedVersions = None\<rparr> (requested_versions v0 cs)"
  by (simp add: apply_calls_fold newInstance_def requested_versions_def split: option.splits)

lemma getSupportedRequestVersion_current:
  "getSupportedRequestVersion req b =
     (case current_versions b of
        [] \<Rightarrow> if req \<noteq> Some False
              then Inl (ErrorMsg ''No supported version supplied/available'') else Inr None
      | v # _ \<Rightarrow> Inr (Some v))"
  by (simp add: getSupportedRequestVersion_def current_versions_def split: option.splits list.splits)

text \<open>
  C10. After any sequence of \<^verbatim>\<open>addSupportedVersion\<close> and \<^verbatim>\<open>withSupportedVersions\<close> calls on
  a new builder, \<^verbatim>\<open>supportedVersions\<close> holds no version twice, and
  \<^verbatim>\<open>getSupportedRequestVersion\<close> returns the first version that was asked for; when none
  was asked for it throws, unless the caller passed \<^verbatim>\<open>false\<close>, and then it returns
  \<^verbatim>\<open>undefined\<close>.
\<close>

theorem supportedVersions_distinct_and_first:
  "(case supportedVersions (apply_calls (newInstance v0) cs) of
      None \<Rightarrow> True
    | Some vs \<Rightarrow> distinct vs) \<and>
   getSupportedRequestVersion req (apply_calls (newInstance v0) cs) =
     (case requested_versions v0 cs of
        [] \<Rightarrow> if req \<noteq> Some False
              then Inl (ErrorMsg ''No supported version supplied/available'') else Inr None
      | v # _ \<Rightarrow> Inr (Some v))"
proof -
  let ?e = "\<lparr>supportedVersions = None\<rparr> :: Builder"
  have e: "current_versions ?e = []" by (simp add: current_versions_def)
  have "distinct (current_versions (apply_calls (newInstance v0) cs))"
    unfolding newInstance_fold using add_all_distinct[of ?e] e by simp
  then have d: "case supportedVersions (apply_calls (newInstance v0) cs) of
      None \<Rightarrow> True | Some vs \<Rightarrow> distinct vs"
    by (simp add: current_versions_def split: option.splits)
  have g: "getSupportedRequestVersion req (apply_calls (newInstance v0) cs) =
     (case requested_versions v0 cs of
        [] \<Rightarrow> if req \<noteq> Some False
              then Inl (ErrorMsg ''No supported version supplied/available'') else Inr None
      | v # _ \<Rightarrow> Inr (Some v))"
  proof (cases "requested_versions v0 cs")
    case Nil
    then show ?thesis
      by (simp add: newInstance_fold getSupportedRequestVersion_current e)
  next
    case (Cons x xs)
    from add_all_first[OF e, of x xs] obtain rest where
      "current_versions (foldl (\<lambda>acc x. addSupportedVersion x acc) ?e (x # xs)) = x # rest" ..
    then show ?thesis
      using Cons by (simp add: newInstance_fold getSupportedRequestVersion_current)
  qed
  from d g show ?thesis ..
qed

lemmas example_builder_defs =
  requested_versions_def apply_calls_def apply_call_def withSupportedVersions_def
  versions_of_def addSupportedVersion_def initSupportedVersions_def newInstance_def Let_def

theorem supportedVersions_distinct_and_first_witness:
  "supportedVersions
     (apply_calls (newInstance (Some 70))
        [AddSupportedVersion 110, WithSupportedVersions (Many [70, 71, 110]),
         WithSupportedVersions (One 71)]) = Some [70, 110, 71] \<and>
   getSupportedRequestVersion None
     (apply_calls (newInstance (Some 70))
        [AddSupportedVersion 110, WithSupportedVersions (Many [70, 71, 110]),
         WithSupportedVersions (One 71)]) = Inr (Some 70) \<and>
   supportedVersions
     (apply_calls (newInstance None)
        [WithSupportedVersions (One 71), AddSupportedVersion 70,
         WithSupportedVersions (Many [110, 71])]) = Some [71, 70, 110] \<and>
   getSupportedRequestVersion None
     (apply_calls (newInstance None)
        [WithSupportedVersions (One 71), AddSupportedVersion 70,
         WithSupportedVersions (Many [110, 71])]) = Inr (Some 71) \<and>
   getSupportedRequestVersion None
     (apply_calls (newInstance (Some 0)) [WithSupportedVersions (Many [110, 70])]) =
     Inr (Some 110) \<and>
   getSupportedRequestVersion None (apply_calls (newInstance None) []) =
     Inl (ErrorMsg ''No supported version supplied/available'') \<and>
   getSupportedRequestVersion (Some False)
     (apply_calls (newInstance (Some 0)) [WithSupportedVersions (Many [])]) = Inr None"
  using supportedVersions_distinct_and_first[of "Some 70"
          "[AddSupportedVersion 110, WithSupportedVersions (Many [70, 71, 110]),
            WithSupportedVersions (One 71)]" None]
        supportedVersions_distinct_and_first[of None
          "[WithSupportedVersions (One 71), AddSupportedVersion 70,
            WithSupportedVersions (Many [110, 71])]" None]
        supportedVersions_distinct_and_first[of "Some 0"
          "[WithSupportedVersions (Many [110, 70])]" None]
        supportedVersions_distinct_and_first[of None "[]" None]
        supportedVersions_distinct_and_first[of "Some 0"
          "[WithSupportedVersions (Many [])]" "Some False"]
  by (simp add: example_builder_defs)

section \<open>Properties: verifying a response\<close>

lemmas promise_defs = await_def sync_def invoke_def resolved_def rejected_def and_then_def

text \<open>
  C3, as amended. The issuer check is made on the parsed claims, before the signature is
  verified: a token whose \<^verbatim>\<open>iss\<close> is not the self-issued identifier is rejected with the
  issuer error as soon as it is parsed, and neither signature verification nor the
  linked-domain check nor any presentation-exchange call has been made.
\<close>

theorem issuer_checked_before_signature:
  assumes "jwt \<noteq> []"
    and "assertValidVerifyOpts caps verifyOpts = Inr ()"
    and "parseJWT caps jwt = Inr (Some header, Some parsed)"
    and "iss parsed \<noteq> Some (SELF_ISSUED_V2 caps)"
  shows "verifyJWT caps now jwt verifyOpts =
           (Inl (ErrorGot NO_SELFISSUED_ISS (iss parsed)), [Call_parseJWT jwt])"
  using assms by (simp add: verifyJWT_def assertValidResponseJWT_def promise_defs)

theorem issuer_checked_before_signature_witness:
  "verifyJWT
     (example_caps (example_claims (Some ''https://attacker.example'') (Some ''n-1'') (Some 2000) None)
        (Inr (example_verified (example_claims (Some ''https://attacker.example'') (Some ''n-1'') (Some 2000) None)))
        (Inr ()) (Inr ()))
     1000000 ''eyJhbGciOiJFUzI1NksifQ.e30.c2ln''
     (Some (example_verifyOpts (Some LD_NEVER) None (Some (Callback 0)) None)) =
   (Inl (ErrorGot NO_SELFISSUED_ISS (Some ''https://attacker.example'')),
    [Call_parseJWT ''eyJhbGciOiJFUzI1NksifQ.e30.c2ln''])"
  using issuer_checked_before_signature[
     where jwt = "''eyJhbGciOiJFUzI1NksifQ.e30.c2ln''"
       and verifyOpts = "Some (example_verifyOpts (Some LD_NEVER) None (Some (Callback 0)) None)"
       and caps = "example_caps
                     (example_claims (Some ''https://attacker.example'') (Some ''n-1'') (Some 2000) None)
                     (Inr (example_verified (example_claims (Some ''https://attacker.example'')
                                               (Some ''n-1'') (Some 2000) None)))
                     (Inr ()) (Inr ())"
       and header = example_header
       and parsed = "example_claims (Some ''https://attacker.example'') (Some ''n-1'') (Some 2000) None"
       and now = 1000000]
  by (simp add: example_caps_def example_claims_def example_verifyOpts_def assertValidVerifyOpts_def)

text \<open>
  The claim as stated fails: this token has a signature that does not verify, and the
  issuer check has rejected it all the same, with no call to \<^verbatim>\<open>verifyDidJWT\<close> made.
\<close>

theorem issuer_rejected_unverified_counterexample:
  "verifyJWT
     (example_caps (example_claims (Some ''https://attacker.example'') (Some ''n-1'') (Some 2000) None)
        (Inl (Rejected ''invalid_signature'')) (Inr ()) (Inr ()))
     1000000 ''eyJhbGciOiJFUzI1NksifQ.e30.c2ln''
     (Some (example_verifyOpts (Some LD_NEVER) None (Some (Callback 0)) None)) =
   (Inl (ErrorGot NO_SELFISSUED_ISS (Some ''https://attacker.example'')),
    [Call_parseJWT ''eyJhbGciOiJFUzI1NksifQ.e30.c2ln''])"
  by (simp add: verifyJWT_def assertValidResponseJWT_def promise_defs
        example_caps_def example_claims_def example_verifyOpts_def assertValidVerifyOpts_def)



text \<open>
  C6, as amended. Claims validation of verified claims that carry a nonce and whose
  \<^verbatim>\<open>exp\<close> is absent, zero or earlier than the time of verification fails with
  \<^verbatim>\<open>EXPIRED\<close>.
\<close>

theorem expired_after_nonce:
  assumes "arg_header opts \<noteq> None"
    and "case arg_payload opts of None \<Rightarrow> True | Some p \<Rightarrow> iss p = Some (SELF_ISSUED_V2 caps)"
    and "arg_verPayload opts = Some verPayload"
    and "truthy (nonce verPayload)"
    and "\<not> truthy_num (exp_claim verPayload) \<or> js_less (exp_claim verPayload) (of_int now / 1000)"
  shows "assertValidResponseJWT caps now opts = Inl (Error EXPIRED)"
  using assms
  by (auto simp add: assertValidResponseJWT_def and_then_def split: option.splits)

theorem expired_after_nonce_witness:
  "assertValidResponseJWT (example_caps (example_claims None None None None) (Inl TypeError) (Inr ()) (Inr ()))
     3000000
     \<lparr>arg_header = Some example_header, arg_payload = None,
      arg_verPayload = Some (example_claims (Some ''https://self-issued.me/v2'') (Some ''n-1'')
                               (Some 2000) None),
      arg_audience = None\<rparr> = Inl (Error EXPIRED)
   \<and>
   assertValidResponseJWT (example_caps (example_claims None None None None) (Inl TypeError) (Inr ()) (Inr ()))
     3000000
     \<lparr>arg_header = Some example_header, arg_payload = None,
      arg_verPayload = Some (example_claims (Some ''https://self-issued.me/v2'') (Some ''n-1'')
                               None None),
      arg_audience = None\<rparr> = Inl (Error EXPIRED)"
proof -
  let ?caps = "example_caps (example_claims None None None None) (Inl TypeError) (Inr ()) (Inr ())"
  let ?o = "\<lambda>e. \<lparr>arg_header = Some example_header, arg_payload = None,
              arg_verPayload = Some (example_claims (Some ''https://self-issued.me/v2'')
                                       (Some ''n-1'') e None),
              arg_audience = None\<rparr>"
  have 1: "assertValidResponseJWT ?caps 3000000 (?o (Some 2000)) = Inl (Error EXPIRED)"
    using expired_after_nonce[of "?o (Some 2000)" ?caps
            "example_claims (Some ''https://self-issued.me/v2'') (Some ''n-1'') (Some 2000) None"
            3000000]
    by (simp add: example_claims_def truthy_def truthy_num_def js_less_def)
  have 2: "assertValidResponseJWT ?caps 3000000 (?o None) = Inl (Error EXPIRED)"
    using expired_after_nonce[of "?o None" ?caps
            "example_claims (Some ''https://self-issued.me/v2'') (Some ''n-1'') None None"
            3000000]
    by (simp add: example_claims_def truthy_def truthy_num_def js_less_def)
  from 1 2 show ?thesis by simp
qed

text \<open>
  The claim as stated fails twice: an expired token without a nonce is rejected with
  \<^verbatim>\<open>NO_NONCE\<close>, and an expired token whose signature does not verify is rejected by
  \<^verbatim>\<open>verifyDidJWT\<close> before claims validation runs.
\<close>

theorem expired_not_reported_counterexample:
  "fst (verifyJWT
     (example_caps (example_claims (Some ''https://self-issued.me/v2'') None (Some 2000) None)
        (Inr (example_verified (example_claims (Some ''https://self-issued.me/v2'') None (Some 2000) None)))
        (Inr ()) (Inr ()))
     3000000 ''eyJhbGciOiJFUzI1NksifQ.e30.c2ln''
     (Some (example_verifyOpts (Some LD_NEVER) None (Some (Callback 0)) None))) = Inl (Error NO_NONCE)
   \<and>
   fst (verifyJWT
     (example_caps (example_claims (Some ''https://self-issued.me/v2'') (Some ''n-1'') (Some 2000) None)
        (Inl (Rejected ''invalid_signature'')) (Inr ()) (Inr ()))
     3000000 ''eyJhbGciOiJFUzI1NksifQ.e30.c2ln''
     (Some (example_verifyOpts (Some LD_NEVER) None (Some (Callback 0)) None))) =
     Inl (Rejected ''invalid_signature'')"
  by (simp add: verifyJWT_def assertValidResponseJWT_def promise_defs
        example_caps_def example_claims_def example_verifyOpts_def example_verified_def
        assertValidVerifyOpts_def read_verification_def read_opts_def
        truthy_def truthy_num_def js_less_def)

lemma never_skips_linked_domain:
  assumes "verification opts = Some v" and "checkLinkedDomain v = Some LD_NEVER"
  shows "Call_validateLinkedDomainWithDid d cb m \<notin> set (snd (verifyJWT caps now jwt (Some opts)))"
  using assms
  by (simp add: verifyJWT_def assertValidVerifyOpts_def read_verification_def read_opts_def
        promise_defs split: sum.splits prod.splits option.splits)

lemma unset_runs_if_present:
  assumes "verification opts = Some v" and "checkLinkedDomain v = None"
    and "jwt \<noteq> []" and "isInternalVerification caps v \<or> isExternalVerification caps v"
    and "parseJWT caps jwt = Inr (header, parsed)"
    and "assertValidResponseJWT caps now
           \<lparr>arg_header = header, arg_payload = parsed, arg_verPayload = None,
            arg_audience = None\<rparr> = Inr ()"
    and "getResolver caps (resolveOpts v) = Inr resolver"
    and "verifyDidJWT caps jwt resolver (audience opts) = Inr verifiedJWT"
    and "getIssuerDidFromPayload caps parsed = Inr issuerDid"
  shows "snd (verifyJWT caps now jwt (Some opts)) =
           [Call_parseJWT jwt, Call_getResolver (resolveOpts v),
            Call_verifyDidJWT jwt (audience opts), Call_getIssuerDidFromPayload parsed,
            Call_validateLinkedDomainWithDid issuerDid (verifyCallback opts) LD_IF_PRESENT]"
    and "validateLinkedDomainWithDid caps issuerDid (verifyCallback opts) LD_IF_PRESENT = Inl e
         \<Longrightarrow> fst (verifyJWT caps now jwt (Some opts)) = Inl e"
  using assms
  by (auto simp add: verifyJWT_def assertValidVerifyOpts_def read_verification_def read_opts_def
        promise_defs split: sum.splits prod.splits option.splits)

text \<open>
  C7. With the linked-domain policy \<^verbatim>\<open>NEVER\<close>, no call of \<^verbatim>\<open>verifyJWT\<close> makes a call to
  \<^verbatim>\<open>validateLinkedDomainWithDid\<close>. With the policy unset, a call that gets as far as the
  linked-domain stage (token parsed and accepted, signature verified, issuer DID read)
  validates the issuer DID in mode \<^verbatim>\<open>IF_PRESENT\<close>, and a failure of that validation
  fails the call.
\<close>

theorem linked_domain_policy:
  assumes "verification opts = Some v"
  shows "(checkLinkedDomain v = Some LD_NEVER \<longrightarrow>
            (\<forall>d cb m. Call_validateLinkedDomainWithDid d cb m
                        \<notin> set (snd (verifyJWT caps now jwt (Some opts)))))
         \<and>
         (checkLinkedDomain v = None \<and> jwt \<noteq> []
            \<and> (isInternalVerification caps v \<or> isExternalVerification caps v)
            \<and> parseJWT caps jwt = Inr (header, parsed)
            \<and> assertValidResponseJWT caps now
                 \<lparr>arg_header = header, arg_payload = parsed, arg_verPayload = None,
                  arg_audience = None\<rparr> = Inr ()
            \<and> getResolver caps (resolveOpts v) = Inr resolver
            \<and> verifyDidJWT caps jwt resolver (audience opts) = Inr verifiedJWT
            \<and> getIssuerDidFromPayload caps parsed = Inr issuerDid \<longrightarrow>
            snd (verifyJWT caps now jwt (Some opts)) =
              [Call_parseJWT jwt, Call_getResolver (resolveOpts v),
               Call_verifyDidJWT jwt (audience opts), Call_getIssuerDidFromPayload parsed,
               Call_validateLinkedDomainWithDid issuerDid (verifyCallback opts) LD_IF_PRESENT]
            \<and> (\<forall>e. validateLinkedDomainWithDid caps issuerDid (verifyCallback opts)
                       LD_IF_PRESENT = Inl e \<longrightarrow>
                     fst (verifyJWT caps now jwt (Some opts)) = Inl e))"
proof (intro conjI impI allI)
  fix d cb m
  assume "checkLinkedDomain v = Some LD_NEVER"
  then show "Call_validateLinkedDomainWithDid d cb m
               \<notin> set (snd (verifyJWT caps now jwt (Some opts)))"
    by (rule never_skips_linked_domain[OF assms])
next
  assume "checkLinkedDomain v = None \<and> jwt \<noteq> []
            \<and> (isInternalVerification caps v \<or> isExternalVerification caps v)
            \<and> parseJWT caps jwt = Inr (header, parsed)
            \<and> assertValidResponseJWT caps now
                 \<lparr>arg_header = header, arg_payload = parsed, arg_verPayload = None,
                  arg_audience = None\<rparr> = Inr ()
            \<and> getResolver caps (resolveOpts v) = Inr resolver
            \<and> verifyDidJWT caps jwt resolver (audience opts) = Inr verifiedJWT
            \<and> getIssuerDidFromPayload caps parsed = Inr issuerDid"
  then show "snd (verifyJWT caps now jwt (Some opts)) =
              [Call_parseJWT jwt, Call_getResolver (resolveOpts v),
               Call_verifyDidJWT jwt (audience opts), Call_getIssuerDidFromPayload parsed,
               Call_validateLinkedDomainWithDid issuerDid (verifyCallback opts) LD_IF_PRESENT]"
    using unset_runs_if_present(1)[OF assms, of jwt caps header parsed now resolver verifiedJWT
            issuerDid]
    by simp
next
  fix e
  assume "checkLinkedDomain v = None \<and> jwt \<noteq> []
            \<and> (isInternalVerification caps v \<or> isExternalVerification caps v)
            \<and> parseJWT caps jwt = Inr (header, parsed)
            \<and> assertValidResponseJWT caps now
                 \<lparr>arg_header = header, arg_payload = parsed, arg_verPayload = None,
                  arg_audience = None\<rparr> = Inr ()
            \<and> getResolver caps (resolveOpts v) = Inr resolver
            \<and> verifyDidJWT caps jwt resolver (audience opts) = Inr verifiedJWT
            \<and> getIssuerDidFromPayload caps parsed = Inr issuerDid"
    and "validateLinkedDomainWithDid caps issuerDid (verifyCallback opts) LD_IF_PRESENT = Inl e"
  then show "fst (verifyJWT caps now jwt (Some opts)) = Inl e"
    using unset_runs_if_present(2)[OF assms, of jwt caps header parsed now resolver verifiedJWT
            issuerDid e]
    by simp
qed

theorem linked_domain_policy_witness:
  "Call_validateLinkedDomainWithDid ''did:example:holder'' None LD_NEVER
     \<notin> set (snd (verifyJWT
           (example_caps (example_claims (Some ''https://self-issued.me/v2'') (Some ''n-1'') (Some 2000) None)
              (Inr (example_verified (example_claims (Some ''https://self-issued.me/v2'') (Some ''n-1'') (Some 2000) None)))
              (Inl (Rejected ''no linked domain'')) (Inr ()))
           1000000 ''eyJhbGciOiJFUzI1NksifQ.e30.c2ln''
           (Some (example_verifyOpts (Some LD_NEVER) None (Some (Callback 0)) None))))
   \<and>
   verifyJWT
     (example_caps (example_claims (Some ''https://self-issued.me/v2'') (Some ''n-1'') (Some 2000) None)
        (Inr (example_verified (example_claims (Some ''https://self-issued.me/v2'') (Some ''n-1'') (Some 2000) None)))
        (Inl (Rejected ''no linked domain'')) (Inr ()))
     1000000 ''eyJhbGciOiJFUzI1NksifQ.e30.c2ln''
     (Some (example_verifyOpts None None (Some (Callback 0)) None)) =
   (Inl (Rejected ''no linked domain''),
    [Call_parseJWT ''eyJhbGciOiJFUzI1NksifQ.e30.c2ln'', Call_getResolver None,
     Call_verifyDidJWT ''eyJhbGciOiJFUzI1NksifQ.e30.c2ln'' None,
     Call_getIssuerDidFromPayload
       (Some (example_claims (Some ''https://self-issued.me/v2'') (Some ''n-1'') (Some 2000) None)),
     Call_validateLinkedDomainWithDid ''did:example:holder'' None LD_IF_PRESENT])"
proof -
  let ?c = "example_claims (Some ''https://self-issued.me/v2'') (Some ''n-1'') (Some 2000) None"
  let ?caps = "example_caps ?c (Inr (example_verified ?c)) (Inl (Rejected ''no linked domain'')) (Inr ())"
  let ?jwt = "''eyJhbGciOiJFUzI1NksifQ.e30.c2ln''"
  let ?vn = "\<lparr>checkLinkedDomain = Some LD_NEVER, resolveOpts = None,
              revocationOpts = None\<rparr>"
  let ?vu = "\<lparr>checkLinkedDomain = None, resolveOpts = None,
              revocationOpts = None\<rparr>"
  have never: "Call_validateLinkedDomainWithDid ''did:example:holder'' None LD_NEVER
     \<notin> set (snd (verifyJWT ?caps 1000000 ?jwt
           (Some (example_verifyOpts (Some LD_NEVER) None (Some (Callback 0)) None))))"
    using linked_domain_policy[of "example_verifyOpts (Some LD_NEVER) None (Some (Callback 0)) None"
            ?vn ?caps 1000000 ?jwt]
    by (simp add: example_verifyOpts_def)
  have unset: "snd (verifyJWT ?caps 1000000 ?jwt
                 (Some (example_verifyOpts None None (Some (Callback 0)) None))) =
     [Call_parseJWT ?jwt, Call_getResolver None, Call_verifyDidJWT ?jwt None,
      Call_getIssuerDidFromPayload (Some ?c),
      Call_validateLinkedDomainWithDid ''did:example:holder'' None LD_IF_PRESENT]
     \<and> fst (verifyJWT ?caps 1000000 ?jwt
                 (Some (example_verifyOpts None None (Some (Callback 0)) None))) =
         Inl (Rejected ''no linked domain'')"
    using linked_domain_policy[of "example_verifyOpts None None (Some (Callback 0)) None"
            ?vu ?caps 1000000 ?jwt "Some example_header" "Some ?c" "''resolver''"
            "example_verified ?c" "''did:example:holder''"]
    by (simp add: example_verifyOpts_def example_caps_def example_claims_def
          assertValidResponseJWT_def and_then_def)
  from never unset show ?thesis
    by (simp add: prod_eq_iff)
qed

lemma verifyJWT_without_callback:
  "verifyJWT caps now jwt (Some (opts\<lparr>presentationVerificationCallback := None\<rparr>)) =
     (case verifyJWT caps now jwt (Some (opts\<lparr>presentationVerificationCallback := Some cb\<rparr>)) of
        (Inl e, t) \<Rightarrow> (Inl e, t)
      | (Inr r, t) \<Rightarrow> (Inl (Error VERIFIABLE_PRESENTATION_VERIFICATION_FUNCTION_MISSING), t))"
  by (simp add: verifyJWT_def assertValidVerifyOpts_def read_verification_def read_opts_def
        promise_defs split: sum.splits prod.splits option.splits)

text \<open>
  C9, as amended. A call of \<^verbatim>\<open>verifyJWT\<close> without a presentation-verification callback
  never succeeds: it fails the way the same call with a callback would fail, and where
  that call would succeed (every earlier stage passed) it fails with
  \<^verbatim>\<open>VERIFIABLE_PRESENTATION_VERIFICATION_FUNCTION_MISSING\<close>.
\<close>

theorem verifyJWT_requires_presentation_callback:
  assumes "presentationVerificationCallback opts = None"
  shows "(\<exists>e. fst (verifyJWT caps now jwt (Some opts)) = Inl e) \<and>
         verifyJWT caps now jwt (Some opts) =
           (case verifyJWT caps now jwt (Some (opts\<lparr>presentationVerificationCallback := Some cb\<rparr>)) of
              (Inl e, t) \<Rightarrow> (Inl e, t)
            | (Inr r, t) \<Rightarrow>
                (Inl (Error VERIFIABLE_PRESENTATION_VERIFICATION_FUNCTION_MISSING), t))"
proof -
  have same: "opts\<lparr>presentationVerificationCallback := None\<rparr> = opts"
    using assms by simp
  have eq: "verifyJWT caps now jwt (Some opts) =
           (case verifyJWT caps now jwt (Some (opts\<lparr>presentationVerificationCallback := Some cb\<rparr>)) of
              (Inl e, t) \<Rightarrow> (Inl e, t)
            | (Inr r, t) \<Rightarrow>
                (Inl (Error VERIFIABLE_PRESENTATION_VERIFICATION_FUNCTION_MISSING), t))"
    using verifyJWT_without_callback[of caps now jwt opts cb] same by simp
  have fails: "\<exists>e. fst (verifyJWT caps now jwt (Some opts)) = Inl e"
    by (subst eq) (simp split: prod.splits sum.splits)
  from fails eq show ?thesis ..
qed

theorem verifyJWT_requires_presentation_callback_witness:
  "verifyJWT
     (example_caps (example_claims (Some ''https://self-issued.me/v2'') (Some ''n-1'') (Some 2000) None)
        (Inr (example_verified (example_claims (Some ''https://self-issued.me/v2'') (Some ''n-1'') (Some 2000) None)))
        (Inr ()) (Inr ()))
     1000000 ''eyJhbGciOiJFUzI1NksifQ.e30.c2ln''
     (Some (example_verifyOpts (Some LD_NEVER) None None None)) =
   (Inl (Error VERIFIABLE_PRESENTATION_VERIFICATION_FUNCTION_MISSING),
    [Call_parseJWT ''eyJhbGciOiJFUzI1NksifQ.e30.c2ln'', Call_getResolver None,
     Call_verifyDidJWT ''eyJhbGciOiJFUzI1NksifQ.e30.c2ln'' None,
     Call_getIssuerDidFromPayload
       (Some (example_claims (Some ''https://self-issued.me/v2'') (Some ''n-1'') (Some 2000) None))])"
  using verifyJWT_requires_presentation_callback[of
     "example_verifyOpts (Some LD_NEVER) None None None"
     "example_caps (example_claims (Some ''https://self-issued.me/v2'') (Some ''n-1'') (Some 2000) None)
        (Inr (example_verified (example_claims (Some ''https://self-issued.me/v2'') (Some ''n-1'') (Some 2000) None)))
        (Inr ()) (Inr ())" 1000000 "''eyJhbGciOiJFUzI1NksifQ.e30.c2ln''" "Callback 0"]
  by (simp add: verifyJWT_def assertValidResponseJWT_def promise_defs
        example_caps_def example_claims_def example_verifyOpts_def example_verified_def
        assertValidVerifyOpts_def read_verification_def read_opts_def
        truthy_def truthy_num_def js_less_def)

text \<open>
  The claim as stated fails: the callback is checked last, so this call without a
  callback, on an expired token, fails with \<^verbatim>\<open>EXPIRED\<close>.
\<close>

theorem callback_missing_other_error_counterexample:
  "fst (verifyJWT
     (example_caps (example_claims (Some ''https://self-issued.me/v2'') (Some ''n-1'') (Some 2000) None)
        (Inr (example_verified (example_claims (Some ''https://self-issued.me/v2'') (Some ''n-1'') (Some 2000) None)))
        (Inr ()) (Inr ()))
     3000000 ''eyJhbGciOiJFUzI1NksifQ.e30.c2ln''
     (Some (example_verifyOpts (Some LD_NEVER) None None None))) = Inl (Error EXPIRED)"
  by (simp add: verifyJWT_def assertValidResponseJWT_def promise_defs
        example_caps_def example_claims_def example_verifyOpts_def example_verified_def
        assertValidVerifyOpts_def read_verification_def read_opts_def
        truthy_def truthy_num_def js_less_def)

section \<open>Properties: presentation exchange and revocation\<close>





lemma assertValidVerifiablePresentations_ignores_revocation:
  "assertValidVerifiablePresentations (caps\<lparr>verifyRevocation := r\<rparr>) args =
   assertValidVerifiablePresentations caps args"
  by (cases "arg_definitions args"; cases "collect_payloads (arg_vps args)")
     (simp_all add: assertValidVerifiablePresentations_def)

text \<open>
  When \<^verbatim>\<open>vp_token\<close> is an array, how \<^verbatim>\<open>verifyVPs\<close> settles does not depend on what
  \<^verbatim>\<open>verifyRevocation\<close> answers.
\<close>

lemma verifyVPs_array_drops_revocation:
  assumes "vp_token payload = Some (Array ps)"
  shows "fst (verifyVPs (caps\<lparr>verifyRevocation := r\<rparr>) payload verifyOpts) =
         fst (verifyVPs caps payload verifyOpts)"
  using assms
  by (simp add: verifyVPs_def assertValidVerifiablePresentations_ignores_revocation
        forEach_async_def promise_defs Let_def
        split: sum.splits prod.splits option.splits)

text \<open>
  C1. The claim asks that one revoked presentation in the array fails \<^verbatim>\<open>verifyVPs\<close>. On
  the code it does not: with policy \<^verbatim>\<open>ALWAYS\<close> and a presentation whose revocation check
  rejects, the call with the array \<^verbatim>\<open>[p]\<close> resolves, while the call with the single
  presentation \<^verbatim>\<open>p\<close> rejects.
\<close>

theorem verifyVPs_revoked_array_resolves:
  "verifyVPs
     (example_caps (example_claims None None None None) (Inl TypeError) (Inr ())
        (Inl (Rejected ''revoked'')))
     \<lparr>vp_token = Some (Array [example_vp]), id_token = None\<rparr>
     (Some (example_verifyOpts (Some LD_NEVER) None (Some (Callback 0))
        (Some \<lparr>revocationVerification = RV_ALWAYS,
               revocationVerificationCallback = Some (Callback 1)\<rparr>))) =
   (Inr (),
    [Call_assertValidPresentationDefinitionWithLocations (Some [example_definition]),
     Call_validatePayloadsAgainstDefinitions [example_definition] [example_vp] None
       (Some (Callback 0)),
     Call_verifyRevocation (Some example_vp) (Some (Callback 1)) RV_ALWAYS])
   \<and>
   verifyVPs
     (example_caps (example_claims None None None None) (Inl TypeError) (Inr ())
        (Inl (Rejected ''revoked'')))
     \<lparr>vp_token = Some (Single example_vp), id_token = None\<rparr>
     (Some (example_verifyOpts (Some LD_NEVER) None (Some (Callback 0))
        (Some \<lparr>revocationVerification = RV_ALWAYS,
               revocationVerificationCallback = Some (Callback 1)\<rparr>))) =
   (Inl (Rejected ''revoked''),
    [Call_assertValidPresentationDefinitionWithLocations (Some [example_definition]),
     Call_validatePayloadsAgainstDefinitions [example_definition] [example_vp] None
       (Some (Callback 0)),
     Call_verifyRevocation (Some example_vp) (Some (Callback 1)) RV_ALWAYS])"
  by (simp add: verifyVPs_def assertValidVerifiablePresentations_def nothing_exchanged_def
        collect_payloads_def definitions_length_def submission_of_def
        read_presentationDefinition_def read_presentationVerificationCallback_def
        read_revocationVerificationCallback_def read_verification_def read_opts_def
        forEach_async_def promise_defs Let_def
        example_caps_def example_verifyOpts_def example_vp_def example_definition_def)

section \<open>Properties: building the identity token\<close>

text \<open>
  What \<^verbatim>\<open>createSIOPIDToken\<close> does with the subject: response options without a DID are
  rejected with \<^verbatim>\<open>BAD_PARAMS\<close> by \<^verbatim>\<open>assertValidResponseOpts\<close>, whatever the request's
  registration advertises, and every token returned has the supplied DID as \<^verbatim>\<open>sub\<close> and
  no \<^verbatim>\<open>sub_jwk\<close>: the branch that sets the thumbprint is never taken.
\<close>

lemma createSIOPIDToken_sub:
  "(\<not> truthy (did ro) \<longrightarrow>
      createSIOPIDToken caps verifiedJwt (Some ro) = Inl (Error BAD_PARAMS))
   \<and>
   (\<forall>tok. createSIOPIDToken caps verifiedJwt (Some ro) = Inr tok \<longrightarrow>
      truthy (did ro) \<and> sub tok = did ro \<and> sub_jwk tok = None)"
  by (auto simp add: createSIOPIDToken_def assertValidResponseOpts_def and_then_def Let_def
        split: option.splits sum.splits if_splits)

text \<open>
  The filter \<^verbatim>\<open>sst.includes(SubjectSyntaxTypesSupportedValues.DID)\<close> keeps the thumbprint
  tag only if the tag itself contains the DID tag.
\<close>

lemma thumbprint_kept_only_if_includes_did:
  assumes "supportedDidMethods_of caps p = Some methods"
    and "SubjectSyntax_JWK_THUMBPRINT caps \<in> set methods"
  shows "str_includes (SubjectSyntax_JWK_THUMBPRINT caps) (SubjectSyntax_DID caps)"
  using assms
  by (auto simp add: supportedDidMethods_of_def split: option.splits)

lemmas example_build_defs =
  createSIOPIDToken_def assertValidResponseOpts_def and_then_def Let_def
  supportedDidMethods_of_def first_definition_id_def descriptor_format_def
  expiresIn_or_default_def isInternalSignature_def or_else_def truthy_def
  example_OP_caps_def example_request_def example_resOpts_def

text \<open>
  C2. The claim asks for the thumbprint as \<^verbatim>\<open>sub\<close>, and the public key as \<^verbatim>\<open>sub_jwk\<close>, when
  the registration advertises the thumbprint syntax and no DID is supplied. On the code
  that call is rejected with \<^verbatim>\<open>BAD_PARAMS\<close>; and the list the thumbprint branch searches
  has lost the thumbprint tag, so that with a DID supplied the subject is the DID.
\<close>

theorem createSIOPIDToken_thumbprint_unreachable:
  "createSIOPIDToken example_OP_caps
     (Some (example_request
              (Some [''did:example'', ''urn:ietf:params:oauth:jwk-thumbprint'']) (Some ''n-req'')))
     (Some (example_resOpts None None)) = Inl (Error BAD_PARAMS)
   \<and>
   supportedDidMethods_of example_OP_caps
     (request_payload
        (example_request
           (Some [''did:example'', ''urn:ietf:params:oauth:jwk-thumbprint'']) (Some ''n-req''))) =
     Some [''did:example'']
   \<and>
   map_sum id (\<lambda>tok. (sub tok, sub_jwk tok))
     (createSIOPIDToken example_OP_caps
        (Some (example_request
                 (Some [''did:example'', ''urn:ietf:params:oauth:jwk-thumbprint''])
                 (Some ''n-req'')))
        (Some (example_resOpts (Some ''did:example:holder'') None))) =
     Inr (Some ''did:example:holder'', None)"
  by (simp add: example_build_defs)

text \<open>
  C8. The \<^verbatim>\<open>nonce\<close> of the token \<^verbatim>\<open>createSIOPIDToken\<close> returns is the request's nonce when
  that is present, else the nonce of the response options when that is present, else
  \<^verbatim>\<open>getNonce(state)\<close>, where \<^verbatim>\<open>state\<close> is the options' state or else
  \<^verbatim>\<open>getState\<close> of the request's state. Present means truthy: an empty string counts
  as absent.
\<close>

theorem createSIOPIDToken_nonce:
  assumes "createSIOPIDToken caps (Some vj) (Some ro) = Inr tok"
  shows "(truthy (request_nonce (request_payload vj)) \<longrightarrow>
            nonce tok = request_nonce (request_payload vj))
         \<and> (\<not> truthy (request_nonce (request_payload vj)) \<and> truthy (opts_nonce ro) \<longrightarrow>
            nonce tok = opts_nonce ro)
         \<and> (\<not> truthy (request_nonce (request_payload vj)) \<and> \<not> truthy (opts_nonce ro) \<longrightarrow>
            nonce tok =
              Some (getNonce caps
                      (or_else (state ro) (getState caps (request_state (request_payload vj))))))"
  using assms
  by (auto simp add: createSIOPIDToken_def assertValidResponseOpts_def and_then_def Let_def
        or_else_def truthy_def
        split: option.splits sum.splits if_splits)

theorem createSIOPIDToken_nonce_witness:
  "map_sum id nonce
     (createSIOPIDToken example_OP_caps
        (Some (example_request (Some [''did:example'']) (Some ''n-req'')))
        (Some (example_resOpts (Some ''did:example:holder'') (Some ''n-opt'')))) =
     Inr (Some ''n-req'')
   \<and>
   map_sum id nonce
     (createSIOPIDToken example_OP_caps
        (Some (example_request (Some [''did:example'']) None))
        (Some (example_resOpts (Some ''did:example:holder'') (Some ''n-opt'')))) =
     Inr (Some ''n-opt'')
   \<and>
   map_sum id nonce
     (createSIOPIDToken example_OP_caps
        (Some (example_request (Some [''did:example'']) None))
        (Some (example_resOpts (Some ''did:example:holder'') None))) =
     Inr (Some ''nonce-of-s-1'')"
proof -
  obtain t1 where 1: "createSIOPIDToken example_OP_caps
        (Some (example_request (Some [''did:example'']) (Some ''n-req'')))
        (Some (example_resOpts (Some ''did:example:holder'') (Some ''n-opt''))) = Inr t1"
    by (simp add: example_build_defs)
  obtain t2 where 2: "createSIOPIDToken example_OP_caps
        (Some (example_request (Some [''did:example'']) None))
        (Some (example_resOpts (Some ''did:example:holder'') (Some ''n-opt''))) = Inr t2"
    by (simp add: example_build_defs)
  obtain t3 where 3: "createSIOPIDToken example_OP_caps
        (Some (example_request (Some [''did:example'']) None))
        (Some (example_resOpts (Some ''did:example:holder'') None)) = Inr t3"
    by (simp add: example_build_defs)
  have n1: "nonce t1 = Some ''n-req''"
    using createSIOPIDToken_nonce[OF 1]
    by (simp add: example_request_def example_resOpts_def truthy_def)
  have n2: "nonce t2 = Some ''n-opt''"
    using createSIOPIDToken_nonce[OF 2]
    by (simp add: example_request_def example_resOpts_def truthy_def)
  have n3: "nonce t3 = Some ''nonce-of-s-1''"
    using createSIOPIDToken_nonce[OF 3]
    by (simp add: example_request_def example_resOpts_def example_OP_caps_def truthy_def
          or_else_def)
  from 1 2 3 n1 n2 n3 show ?thesis by simp
qed

end
